theory Spec2Isabelle
  imports Complex_Main "HOL-Library.Multiset"
begin

section \<open>JavaScript numbers\<close>

text \<open>
  A JavaScript number is a double. The model keeps the three kinds of value the code
  distinguishes (NaN, the two infinities, a finite number) and takes a finite number as
  the exact rational it denotes: the binary rounding of \<open>+\<close>, \<open>*\<close> and \<open>/\<close>, overflow
  and the sign of zero are not modelled. A field that is absent from an object
  (\<open>undefined\<close>) behaves as NaN wherever the code reads it as a number (\<open>x || 0\<close>,
  arithmetic, \<open>x && !isNaN(x)\<close>), so an absent numeric field is NaN here.
\<close>

datatype jsnum = NaN | PInf | NInf | Num rat

definition js_truthy :: "jsnum \<Rightarrow> bool" where
  "js_truthy x = (x \<noteq> NaN \<and> x \<noteq> Num 0)"

text \<open>\<open>x || 0\<close> on a number.\<close>

definition or_zero :: "jsnum \<Rightarrow> jsnum" where
  "or_zero x = (if js_truthy x then x else Num 0)"

definition js_sign :: "jsnum \<Rightarrow> rat" where
  "js_sign x = (case x of NaN \<Rightarrow> 0 | PInf \<Rightarrow> 1 | NInf \<Rightarrow> - 1 | Num a \<Rightarrow> sgn a)"

definition js_neg :: "jsnum \<Rightarrow> jsnum" where
  "js_neg x = (case x of NaN \<Rightarrow> NaN | PInf \<Rightarrow> NInf | NInf \<Rightarrow> PInf | Num a \<Rightarrow> Num (- a))"

definition js_add :: "jsnum \<Rightarrow> jsnum \<Rightarrow> jsnum" where
  "js_add x y =
     (case x of
        NaN \<Rightarrow> NaN
      | PInf \<Rightarrow> (if y = NaN \<or> y = NInf then NaN else PInf)
      | NInf \<Rightarrow> (if y = NaN \<or> y = PInf then NaN else NInf)
      | Num a \<Rightarrow> (case y of Num b \<Rightarrow> Num (a + b) | _ \<Rightarrow> y))"

definition js_sub :: "jsnum \<Rightarrow> jsnum \<Rightarrow> jsnum" where
  "js_sub x y = js_add x (js_neg y)"

definition js_mul :: "jsnum \<Rightarrow> jsnum \<Rightarrow> jsnum" where
  "js_mul x y =
     (if x = NaN \<or> y = NaN then NaN
      else case (x, y) of
        (Num a, Num b) \<Rightarrow> Num (a * b)
      | _ \<Rightarrow> (let s = js_sign x * js_sign y
              in if s = 0 then NaN else if 0 < s then PInf else NInf))"

text \<open>Division; a zero divisor is read as \<open>+0\<close>. The code only ever divides by 100.\<close>

definition js_div :: "jsnum \<Rightarrow> jsnum \<Rightarrow> jsnum" where
  "js_div x y =
     (if x = NaN \<or> y = NaN then NaN
      else case (x, y) of
        (Num a, Num b) \<Rightarrow>
          (if b \<noteq> 0 then Num (a / b)
           else if a = 0 then NaN else if 0 < a then PInf else NInf)
      | (Num a, _) \<Rightarrow> Num 0
      | (_, Num b) \<Rightarrow> (if 0 \<le> b then x else js_neg x)
      | _ \<Rightarrow> NaN)"

text \<open>\<open>Math.max(x, y)\<close>: NaN if either argument is NaN.\<close>

definition js_max :: "jsnum \<Rightarrow> jsnum \<Rightarrow> jsnum" where
  "js_max x y =
     (if x = NaN \<or> y = NaN then NaN
      else if x = PInf \<or> y = PInf then PInf
      else case (x, y) of
        (Num a, Num b) \<Rightarrow> Num (max a b)
      | (NInf, _) \<Rightarrow> y
      | (_, _) \<Rightarrow> x)"

text \<open>
  Rounding to two decimals as \<open>Number.prototype.toFixed(2)\<close> does it: the nearest
  multiple of 1/100 to the magnitude, the larger one on a tie, with the sign put back.
\<close>

definition round2 :: "rat \<Rightarrow> rat" where
  "round2 x = sgn x * of_int \<lfloor>\<bar>x\<bar> * 100 + 1 / 2\<rfloor> / 100"

text \<open>
  \<open>parseFloat(x.toFixed(2))\<close>. For NaN and the infinities \<open>toFixed\<close> prints the
  name of the value and \<open>parseFloat\<close> reads it back. (For a double of magnitude
  \<open>10^21\<close> or more \<open>toFixed\<close> prints the number itself; such a double is an integer,
  which \<open>round2\<close> leaves alone as well.)
\<close>

definition toFixed2 :: "jsnum \<Rightarrow> jsnum" where
  "toFixed2 x = (case x of Num a \<Rightarrow> Num (round2 a) | _ \<Rightarrow> x)"

section \<open>Line items and quotations (src/index.js)\<close>

record item =
  item_id :: string
  requirement :: string
  qty :: jsnum
  unitPrice :: jsnum
  remark :: string
  amount :: jsnum

text \<open>
  A \<open>Date\<close> is its time value in milliseconds, or invalid (\<open>getTime()\<close> is NaN).
\<close>

datatype jsdate = InvalidDate | DateMs int

record totals =
  subtotal :: jsnum
  taxAmount :: jsnum
  grandTotal :: jsnum

text \<open>
  The quotation object. The fields the code reads with \<open>?.\<close> are optional
  (\<open>None\<close> is \<open>undefined\<close>). The three derived totals are the fields of
  \<open>totals\<close>, so that \<open>{...quotation, ...calculatedTotals}\<close> is an update of them.
\<close>

record quotation = totals +
  quot_id :: string
  clientName :: "string option"
  companyName :: string
  address :: string
  contactNumber :: string
  quotationNumber :: "string option"
  dateIssued :: string
  validUntil :: string
  items :: "item list"
  taxRate :: jsnum
  discount :: jsnum
  status :: string
  terms :: string
  notes' :: string
  createdAt :: "jsdate option"
  updatedAt :: "jsdate option"

text \<open>\<open>getDefaultItem\<close>; the argument is the value of \<open>crypto.randomUUID()\<close>.\<close>

definition getDefaultItem :: "string \<Rightarrow> item" where
  "getDefaultItem uuid =
     \<lparr>item_id = uuid, requirement = [], qty = Num 1, unitPrice = Num 0,
      remark = [], amount = Num 0\<rparr>"

subsection \<open>useQuotationCalculations\<close>

text \<open>
  A hook of React may be called only while a function component renders. There
  \<open>useMemo\<close> returns the value of its callback for the current dependencies; called
  from an event handler or from any other callback, it throws (\<open>Invalid hook call\<close>).
  \<open>phase\<close> says where the code is running.
\<close>

datatype phase = Rendering | Handling

datatype error = InvalidHookCall

definition useMemo :: "phase \<Rightarrow> 'a \<Rightarrow> error + 'a" where
  "useMemo ph v = (case ph of Rendering \<Rightarrow> Inr v | Handling \<Rightarrow> Inl InvalidHookCall)"

definition line_amount :: "item \<Rightarrow> jsnum" where
  "line_amount it = js_mul (or_zero (qty it)) (or_zero (unitPrice it))"

definition raw_subtotal :: "item list \<Rightarrow> jsnum" where
  "raw_subtotal its = foldl (\<lambda>sum it. js_add sum (line_amount it)) (Num 0) its"

text \<open>The callback that \<open>useQuotationCalculations\<close> hands to \<open>useMemo\<close>.\<close>

definition calculated_totals :: "'a quotation_scheme \<Rightarrow> totals" where
  "calculated_totals q =
     (let subtotal' = raw_subtotal (items q);
          taxAmount' = js_mul subtotal' (js_div (taxRate q) (Num 100));
          totalBeforeDiscount = js_add subtotal' taxAmount';
          grandTotal' = js_sub totalBeforeDiscount (or_zero (discount q))
      in \<lparr>subtotal = toFixed2 subtotal',
          taxAmount = toFixed2 taxAmount',
          grandTotal = toFixed2 (js_max (Num 0) grandTotal')\<rparr>)"

definition useQuotationCalculations :: "phase \<Rightarrow> 'a quotation_scheme \<Rightarrow> error + totals" where
  "useQuotationCalculations ph q = useMemo ph (calculated_totals q)"

section \<open>Strings\<close>

text \<open>
  A JavaScript string is modelled as a \<open>string\<close> of single-byte characters; the code
  units beyond ASCII (further white space, letters with case outside A-Z) are not
  modelled.
\<close>

definition is_digit :: "char \<Rightarrow> bool" where
  "is_digit c = (c \<in> set ''0123456789'')"

definition digit_val :: "char \<Rightarrow> nat" where
  "digit_val c = of_char c - 48"

text \<open>The value of a run of decimal digits (\<open>parseInt(ds, 10)\<close> on such a run).\<close>

definition digits_val :: "string \<Rightarrow> nat" where
  "digits_val ds = foldl (\<lambda>n c. 10 * n + digit_val c) 0 ds"

definition is_space :: "char \<Rightarrow> bool" where
  "is_space c = (c \<in> set [CHR 0x09, CHR 0x0A, CHR 0x0B, CHR 0x0C, CHR 0x0D, CHR 0x20])"

definition pow10 :: "int \<Rightarrow> rat" where
  "pow10 e = (if 0 \<le> e then 10 ^ nat e else 1 / 10 ^ nat (- e))"

text \<open>
  \<open>parseFloat\<close>: leading white space is dropped, then the longest prefix that is a
  decimal literal (sign, \<open>Infinity\<close> or digits with an optional fraction and an
  optional complete exponent) is read; NaN if there is none.
\<close>

definition parse_exponent :: "string \<Rightarrow> int" where
  "parse_exponent s =
     (case s of
        [] \<Rightarrow> 0
      | c # r \<Rightarrow>
          if c = CHR ''e'' \<or> c = CHR ''E'' then
            (let neg = (r \<noteq> [] \<and> hd r = CHR ''-'');
                 r' = (if r \<noteq> [] \<and> (hd r = CHR ''-'' \<or> hd r = CHR ''+'') then tl r else r);
                 ds = takeWhile is_digit r'
             in if ds = [] then 0
                else if neg then - int (digits_val ds) else int (digits_val ds))
          else 0)"

definition parse_unsigned :: "string \<Rightarrow> jsnum" where
  "parse_unsigned s =
     (if take 8 s = ''Infinity'' then PInf
      else
        let ip = takeWhile is_digit s;
            r1 = dropWhile is_digit s;
            has_dot = (r1 \<noteq> [] \<and> hd r1 = CHR ''.'');
            fp = (if has_dot then takeWhile is_digit (tl r1) else []);
            r2 = (if has_dot then dropWhile is_digit (tl r1) else r1)
        in if ip = [] \<and> fp = [] then NaN
           else Num (of_nat (digits_val (ip @ fp)) / 10 ^ length fp * pow10 (parse_exponent r2)))"

definition parseFloat :: "string \<Rightarrow> jsnum" where
  "parseFloat s =
     (case dropWhile is_space s of
        [] \<Rightarrow> NaN
      | c # r \<Rightarrow>
          if c = CHR ''-'' then js_neg (parse_unsigned r)
          else if c = CHR ''+'' then parse_unsigned r
          else parse_unsigned (c # r))"





text \<open>
  \<open>s.match(/(\d+)$/)\<close>: the leftmost position from which a non-empty run of digits
  reaches the end of the string; the result is the captured run.
\<close>

fun match_trailing_digits :: "string \<Rightarrow> string option" where
  "match_trailing_digits [] = None"
| "match_trailing_digits (c # cs) =
     (if list_all is_digit (c # cs) then Some (c # cs) else match_trailing_digits cs)"

text \<open>\<open>String(n)\<close> for a natural number: its decimal digits.\<close>

definition digit_char :: "nat \<Rightarrow> char" where
  "digit_char d = ''0123456789'' ! d"

function string_of_nat :: "nat \<Rightarrow> string" where
  "string_of_nat n =
     (if n < 10 then [digit_char n] else string_of_nat (n div 10) @ [digit_char (n mod 10)])"
  by pat_completeness auto
termination
  by (relation "measure id") auto

declare string_of_nat.simps [simp del]

definition padStart :: "nat \<Rightarrow> char \<Rightarrow> string \<Rightarrow> string" where
  "padStart n c s = replicate (n - length s) c @ s"

section \<open>Creating a quotation\<close>

text \<open>
  What the environment supplies when a quotation is created or saved: the two values of
  \<open>crypto.randomUUID()\<close>, \<open>new Date()\<close> with its full year, and the two dates as
  \<open>formatDate\<close> prints them.
\<close>

record env =
  uuid_quotation :: string
  uuid_item :: string
  year :: nat
  now :: jsdate
  today :: string
  in_30_days :: string

definition getNewQuotation :: "env \<Rightarrow> nat \<Rightarrow> quotation" where
  "getNewQuotation e count' =
     \<lparr>subtotal = Num 0, taxAmount = NaN, grandTotal = Num 0,
      quot_id = uuid_quotation e,
      clientName = Some ''New Client'',
      companyName = [],
      address = [],
      contactNumber = [],
      quotationNumber =
        Some (''QT-'' @ string_of_nat (year e) @ ''-''
              @ padStart 4 (CHR ''0'') (string_of_nat (count' + 1))),
      dateIssued = today e,
      validUntil = in_30_days e,
      items = [getDefaultItem (uuid_item e)],
      taxRate = Num 18,
      discount = Num 0,
      status = ''Draft'',
      terms = ''Payment due within 30 days. 50% advance required.'',
      notes' = ''Additional notes or special instructions for the event.'',
      createdAt = Some (now e),
      updatedAt = None\<rparr>"

text \<open>
  The reduction of \<open>handleNewQuotation\<close>. The sequence numbers are natural numbers
  (\<open>parseInt\<close> of a digit run), kept exact, as doubles are below \<open>2^53\<close>.
\<close>

definition max_step :: "nat \<Rightarrow> 'a quotation_scheme \<Rightarrow> nat" where
  "max_step mx q =
     (case quotationNumber q of
        None \<Rightarrow> mx
      | Some s \<Rightarrow>
          (case match_trailing_digits s of
             None \<Rightarrow> mx
           | Some d \<Rightarrow> max mx (digits_val d)))"

definition maxNum :: "'a quotation_scheme list \<Rightarrow> nat" where
  "maxNum quotations = foldl max_step 0 quotations"

definition handleNewQuotation :: "env \<Rightarrow> 'a quotation_scheme list \<Rightarrow> quotation" where
  "handleNewQuotation e quotations = getNewQuotation e (maxNum quotations)"

section \<open>The editor\<close>

text \<open>
  \<open>handleInputChange\<close>: the event carries the name of the input, its value and its
  type. The inputs of type \<open>number\<close> are \<open>taxRate\<close> and \<open>discount\<close>; the others
  store the value as it is.
\<close>

datatype header_field =
  FClientName | FCompanyName | FAddress | FContactNumber | FQuotationNumber
  | FValidUntil | FStatus | FTerms | FNotes | FTaxRate | FDiscount

definition handleInputChange :: "header_field \<Rightarrow> string \<Rightarrow> quotation \<Rightarrow> quotation" where
  "handleInputChange name v prev =
     (case name of
        FClientName \<Rightarrow> prev\<lparr>clientName := Some v\<rparr>
      | FCompanyName \<Rightarrow> prev\<lparr>companyName := v\<rparr>
      | FAddress \<Rightarrow> prev\<lparr>address := v\<rparr>
      | FContactNumber \<Rightarrow> prev\<lparr>contactNumber := v\<rparr>
      | FQuotationNumber \<Rightarrow> prev\<lparr>quotationNumber := Some v\<rparr>
      | FValidUntil \<Rightarrow> prev\<lparr>validUntil := v\<rparr>
      | FStatus \<Rightarrow> prev\<lparr>status := v\<rparr>
      | FTerms \<Rightarrow> prev\<lparr>terms := v\<rparr>
      | FNotes \<Rightarrow> prev\<lparr>notes' := v\<rparr>
      | FTaxRate \<Rightarrow> prev\<lparr>taxRate := or_zero (parseFloat v)\<rparr>
      | FDiscount \<Rightarrow> prev\<lparr>discount := or_zero (parseFloat v)\<rparr>)"

text \<open>
  \<open>handleItemChange\<close>: \<open>{...item, [field]: numericValue}\<close> for a numeric field of
  the item, then the assignment to \<open>newItem.amount\<close>.
\<close>

datatype number_field = FQty | FUnitPrice | FAmount

definition set_number_field :: "number_field \<Rightarrow> jsnum \<Rightarrow> item \<Rightarrow> item" where
  "set_number_field f x it =
     (case f of
        FQty \<Rightarrow> it\<lparr>qty := x\<rparr>
      | FUnitPrice \<Rightarrow> it\<lparr>unitPrice := x\<rparr>
      | FAmount \<Rightarrow> it\<lparr>amount := x\<rparr>)"

definition change_item :: "number_field \<Rightarrow> string \<Rightarrow> item \<Rightarrow> item" where
  "change_item field v it =
     (let numericValue = or_zero (parseFloat v);
          newItem = set_number_field field numericValue it
      in newItem\<lparr>amount := toFixed2 (js_mul (qty newItem) (unitPrice newItem))\<rparr>)"

definition handleItemChange ::
  "string \<Rightarrow> number_field \<Rightarrow> string \<Rightarrow> quotation \<Rightarrow> quotation" where
  "handleItemChange itemId field v prev =
     prev\<lparr>items := map (\<lambda>it. if item_id it = itemId then change_item field v it else it)
                        (items prev)\<rparr>"

datatype text_field = FRequirement | FRemark

definition set_text_field :: "text_field \<Rightarrow> string \<Rightarrow> item \<Rightarrow> item" where
  "set_text_field f v it =
     (case f of FRequirement \<Rightarrow> it\<lparr>requirement := v\<rparr> | FRemark \<Rightarrow> it\<lparr>remark := v\<rparr>)"

definition handleTextareaChange ::
  "string \<Rightarrow> text_field \<Rightarrow> string \<Rightarrow> quotation \<Rightarrow> quotation" where
  "handleTextareaChange itemId field v prev =
     prev\<lparr>items := map (\<lambda>it. if item_id it = itemId then set_text_field field v it else it)
                        (items prev)\<rparr>"

definition handleAddItem :: "string \<Rightarrow> quotation \<Rightarrow> quotation" where
  "handleAddItem uuid prev = prev\<lparr>items := items prev @ [getDefaultItem uuid]\<rparr>"

text \<open>
  \<open>handleRemoveItem\<close>: the guard reads the quotation of the current render, the
  update is applied to the state \<open>prev\<close>.
\<close>

definition handleRemoveItem :: "quotation \<Rightarrow> string \<Rightarrow> quotation \<Rightarrow> quotation" where
  "handleRemoveItem rendered i prev =
     (if length (items rendered) > 1
      then prev\<lparr>items := filter (\<lambda>it. item_id it \<noteq> i) (items prev)\<rparr>
      else prev)"

text \<open>
  The operations of the editor as events, each handled on the rendered state.
\<close>

datatype editor_event =
  InputChange header_field string
  | ItemChange string number_field string
  | TextareaChange string text_field string
  | AddItem string
  | RemoveItem string

fun editor_step :: "quotation \<Rightarrow> editor_event \<Rightarrow> quotation" where
  "editor_step q (InputChange name v) = handleInputChange name v q"
| "editor_step q (ItemChange i f v) = handleItemChange i f v q"
| "editor_step q (TextareaChange i f v) = handleTextareaChange i f v q"
| "editor_step q (AddItem uuid) = handleAddItem uuid q"
| "editor_step q (RemoveItem i) = handleRemoveItem q i q"

definition editor_run :: "quotation \<Rightarrow> editor_event list \<Rightarrow> quotation" where
  "editor_run q evs = foldl editor_step q evs"

section \<open>Saving (the Firestore collection)\<close>

text \<open>
  The collection maps a document id to the stored quotation. \<open>setDoc\<close> with
  \<open>merge: true\<close> overwrites the fields the payload carries and keeps the others; a
  field that is \<open>undefined\<close> in the payload is not written.
\<close>

definition merge_doc :: "quotation option \<Rightarrow> quotation \<Rightarrow> quotation" where
  "merge_doc old new =
     (case old of
        None \<Rightarrow> new
      | Some d \<Rightarrow>
          new\<lparr>clientName := (case clientName new of None \<Rightarrow> clientName d | Some v \<Rightarrow> Some v),
               quotationNumber :=
                 (case quotationNumber new of None \<Rightarrow> quotationNumber d | Some v \<Rightarrow> Some v),
               createdAt := (case createdAt new of None \<Rightarrow> createdAt d | Some v \<Rightarrow> Some v),
               updatedAt := (case updatedAt new of None \<Rightarrow> updatedAt d | Some v \<Rightarrow> Some v)\<rparr>)"

record app_state =
  collection :: "string \<rightharpoonup> quotation"
  currentQuotation :: "quotation option"

text \<open>
  \<open>handleSaveQuotation\<close>, an async callback. The result is the state once its
  promise is resolved, or the error the promise is rejected with (the state is then as
  before). \<open>ph\<close> is the phase in which the callback runs; \<open>ready\<close> is
  \<open>db && userId\<close>; \<open>write_ok\<close> says whether \<open>setDoc\<close> resolves (its rejection
  is caught and only logged).
\<close>

definition handleSaveQuotation ::
  "phase \<Rightarrow> bool \<Rightarrow> bool \<Rightarrow> env \<Rightarrow> quotation \<Rightarrow> app_state \<Rightarrow> error + app_state" where
  "handleSaveQuotation ph ready write_ok e quotationToSave st =
     (if \<not> ready then Inr st
      else
        case useQuotationCalculations ph quotationToSave of
          Inl err \<Rightarrow> Inl err
        | Inr calculatedTotals \<Rightarrow>
            (let finalQuotation =
                   quotationToSave\<lparr>subtotal := subtotal calculatedTotals,
                                   taxAmount := taxAmount calculatedTotals,
                                   grandTotal := grandTotal calculatedTotals,
                                   dateIssued := today e,
                                   updatedAt := Some (now e)\<rparr>
             in if write_ok
                then Inr (st\<lparr>collection :=
                            (collection st)(quot_id finalQuotation \<mapsto>
                               merge_doc (collection st (quot_id finalQuotation)) finalQuotation),
                          currentQuotation := Some finalQuotation\<rparr>)
                else Inr st))"

text \<open>
  The Save button of the editor. The editor called the hook when it rendered; the click
  handler then calls \<open>onSave({ ...quotation, ...calculatedTotals })\<close>, and
  \<open>onSave\<close> is \<open>handleSaveQuotation\<close>, running in the event handler.
\<close>

definition save_draft ::
  "bool \<Rightarrow> bool \<Rightarrow> env \<Rightarrow> quotation \<Rightarrow> app_state \<Rightarrow> error + app_state" where
  "save_draft ready write_ok e q st =
     (case useQuotationCalculations Rendering q of
        Inl err \<Rightarrow> Inl err
      | Inr calculatedTotals \<Rightarrow>
          handleSaveQuotation Handling ready write_ok e
            (q\<lparr>subtotal := subtotal calculatedTotals,
               taxAmount := taxAmount calculatedTotals,
               grandTotal := grandTotal calculatedTotals\<rparr>) st)"

text \<open>
  The snapshot listener: every document becomes a quotation whose \<open>createdAt\<close> is
  the stored time stamp as a \<open>Date\<close>, or \<open>new Date()\<close> when there is none.
\<close>

definition fetchedQuotations :: "jsdate \<Rightarrow> quotation list \<Rightarrow> quotation list" where
  "fetchedQuotations nowd docs =
     map (\<lambda>d. d\<lparr>createdAt := Some (case createdAt d of Some t \<Rightarrow> t | None \<Rightarrow> nowd)\<rparr>) docs"

section \<open>The dashboard\<close>

text \<open>
  The filtered list and the statistics are computed by \<open>useMemo\<close> while the
  \<open>Dashboard\<close> component renders; they are modelled by the functions their
  callbacks compute.
\<close>













section \<open>The REST server (src/server.js)\<close>

datatype json =
  JNull | JBool bool | JNum rat | JStr string | JArr "json list" | JObj "(string \<times> json) list"

text \<open>
  A stored quotation and a request body are objects: maps from property names to JSON
  values. \<open>{a, b, ...payload}\<close> is \<open>[a, b] ++ payload\<close>.
\<close>

type_synonym jsobject = "string \<rightharpoonup> json"

datatype body = BObject jsobject | BList "jsobject list"

datatype response = Response nat body

text \<open>
  The file \<open>db.json\<close> holds the list of quotations; \<open>None\<close> is a file that cannot be
  read or parsed, for which \<open>readDB\<close> answers the empty collection.
\<close>

definition readDB :: "jsobject list option \<Rightarrow> jsobject list" where
  "readDB file = (case file of Some quotations \<Rightarrow> quotations | None \<Rightarrow> [])"

definition writeDB :: "jsobject list \<Rightarrow> jsobject list option" where
  "writeDB quotations = Some quotations"

definition get_all :: "jsobject list option \<Rightarrow> response" where
  "get_all file = Response 200 (BList (readDB file))"

definition get_one :: "string \<Rightarrow> jsobject list option \<Rightarrow> response" where
  "get_one i file =
     (case find (\<lambda>item. item ''id'' = Some (JStr i)) (readDB file) of
        None \<Rightarrow> Response 404 (BObject [''message'' \<mapsto> JStr ''Not found''])
      | Some q \<Rightarrow> Response 200 (BObject q))"

text \<open>
  \<open>POST\<close>: \<open>uuid\<close> is the value of \<open>uuidv4()\<close>, \<open>t1\<close> and \<open>t2\<close> the two values
  of \<open>new Date().toISOString()\<close>.
\<close>

definition new_record :: "string \<Rightarrow> string \<Rightarrow> string \<Rightarrow> jsobject \<Rightarrow> jsobject" where
  "new_record uuid t1 t2 payload =
     [''id'' \<mapsto> JStr uuid, ''created_at'' \<mapsto> JStr t1, ''updated_at'' \<mapsto> JStr t2] ++ payload"

definition post_quotation ::
  "string \<Rightarrow> string \<Rightarrow> string \<Rightarrow> jsobject \<Rightarrow> jsobject list option
   \<Rightarrow> jsobject list option \<times> response" where
  "post_quotation uuid t1 t2 payload file =
     (let quotations = readDB file;
          newQ = new_record uuid t1 t2 payload
      in (writeDB (quotations @ [newQ]), Response 201 (BObject newQ)))"

fun find_index :: "('a \<Rightarrow> bool) \<Rightarrow> 'a list \<Rightarrow> nat option" where
  "find_index P [] = None"
| "find_index P (x # xs) =
     (if P x then Some 0 else map_option Suc (find_index P xs))"

definition put_quotation ::
  "string \<Rightarrow> string \<Rightarrow> jsobject \<Rightarrow> jsobject list option
   \<Rightarrow> jsobject list option \<times> response" where
  "put_quotation i t payload file =
     (let quotations = readDB file
      in case find_index (\<lambda>item. item ''id'' = Some (JStr i)) quotations of
           None \<Rightarrow> (file, Response 404 (BObject [''message'' \<mapsto> JStr ''Not found'']))
         | Some idx \<Rightarrow>
             (let updated = (quotations ! idx ++ payload)(''updated_at'' \<mapsto> JStr t)
              in (writeDB (quotations[idx := updated]), Response 200 (BObject updated))))"

definition delete_quotation ::
  "string \<Rightarrow> jsobject list option \<Rightarrow> jsobject list option \<times> response" where
  "delete_quotation i file =
     (let quotations = readDB file;
          filtered = filter (\<lambda>item. item ''id'' \<noteq> Some (JStr i)) quotations
      in (writeDB filtered, Response 200 (BObject [''success'' \<mapsto> JBool True])))"

section \<open>Notions used to state the properties\<close>


definition is_finite :: "jsnum \<Rightarrow> bool" where
  "is_finite x = (case x of Num a \<Rightarrow> True | _ \<Rightarrow> False)"



text \<open>The trailing digit run of a string, and the sequence numbers of a collection.\<close>

definition trailing_digits :: "string \<Rightarrow> string" where
  "trailing_digits s = rev (takeWhile is_digit (rev s))"

definition own_numbers :: "'a quotation_scheme \<Rightarrow> nat list" where
  "own_numbers q =
     (case quotationNumber q of
        None \<Rightarrow> []
      | Some s \<Rightarrow> if trailing_digits s = [] then [] else [digits_val (trailing_digits s)])"

definition sequence_numbers :: "'a quotation_scheme list \<Rightarrow> nat list" where
  "sequence_numbers quotations = concat (map own_numbers quotations)"

text \<open>
  The items of a quotation carry pairwise different ids; an added item is fresh when
  its id is not among them.
\<close>

definition ids_distinct :: "quotation \<Rightarrow> bool" where
  "ids_distinct q = distinct (map item_id (items q))"

definition editor_inv :: "quotation \<Rightarrow> bool" where
  "editor_inv q = (items q \<noteq> [] \<and> ids_distinct q)"

definition fresh_event :: "quotation \<Rightarrow> editor_event \<Rightarrow> bool" where
  "fresh_event q ev =
     (case ev of AddItem uuid \<Rightarrow> uuid \<notin> set (map item_id (items q)) | _ \<Rightarrow> True)"

fun fresh_events :: "quotation \<Rightarrow> editor_event list \<Rightarrow> bool" where
  "fresh_events q [] = True"
| "fresh_events q (ev # evs) = (fresh_event q ev \<and> fresh_events (editor_step q ev) evs)"



section \<open>Example data\<close>

definition example_env :: env where
  "example_env =
     \<lparr>uuid_quotation = ''q-1'', uuid_item = ''i-1'', year = 2024, now = DateMs 1000,
      today = ''01/01/2024'', in_30_days = ''31/01/2024''\<rparr>"

definition example_quotation :: quotation where
  "example_quotation = getNewQuotation example_env 0"

text \<open>
  A new quotation after three edits: half a unit at 0.25, taxed at 50 percent.
\<close>

definition fractional_quotation :: quotation where
  "fractional_quotation =
     editor_run example_quotation
       [ItemChange ''i-1'' FQty ''0.5'',
        ItemChange ''i-1'' FUnitPrice ''0.25'',
        InputChange FTaxRate ''50'']"

definition two_item_quotation :: quotation where
  "two_item_quotation = editor_run example_quotation [AddItem ''i-2'']"






definition empty_state :: app_state where
  "empty_state = \<lparr>collection = Map.empty, currentQuotation = None\<rparr>"

definition stored_a :: jsobject where
  "stored_a = [''id'' \<mapsto> JStr ''a'', ''clientName'' \<mapsto> JStr ''A'']"

definition stored_b :: jsobject where
  "stored_b = [''id'' \<mapsto> JStr ''b'', ''clientName'' \<mapsto> JStr ''B'']"

definition example_db :: "jsobject list option" where
  "example_db = Some [stored_a, stored_b]"

section \<open>Arithmetic facts\<close>












lemma or_zero_finite: "is_finite x \<Longrightarrow> or_zero x = x"
  by (cases x) (simp_all add: is_finite_def or_zero_def js_truthy_def)



section \<open>The derived totals\<close>




section \<open>Numbering a new quotation\<close>

subsection \<open>The regular expression finds the trailing digit run\<close>

lemma trailing_digits_all: "list_all is_digit s \<Longrightarrow> trailing_digits s = s"
  by (simp add: trailing_digits_def list_all_iff takeWhile_eq_all_conv[THEN iffD2])

lemma trailing_digits_Cons:
  "\<not> list_all is_digit (c # cs) \<Longrightarrow> trailing_digits (c # cs) = trailing_digits cs"
proof (cases "list_all is_digit cs")
  case True
  assume "\<not> list_all is_digit (c # cs)"
  with True have c: "\<not> is_digit c" by simp
  from True have "takeWhile is_digit (rev cs @ [c]) = rev cs @ takeWhile is_digit [c]"
    by (intro takeWhile_append2) (simp add: list_all_iff)
  with c True show ?thesis
    by (simp add: trailing_digits_def trailing_digits_all [unfolded trailing_digits_def])
next
  case False
  then obtain x where "x \<in> set (rev cs)" "\<not> is_digit x"
    by (auto simp: list_all_iff)
  then have "takeWhile is_digit (rev cs @ [c]) = takeWhile is_digit (rev cs)"
    by (rule takeWhile_append1)
  then show ?thesis by (simp add: trailing_digits_def)
qed

lemma match_trailing_digits_run:
  "match_trailing_digits s =
     (if trailing_digits s = [] then None else Some (trailing_digits s))"
proof (induction s)
  case Nil
  show ?case by (simp add: trailing_digits_def)
next
  case (Cons c cs)
  show ?case
  proof (cases "list_all is_digit (c # cs)")
    case True
    then show ?thesis using trailing_digits_all [OF True] by simp
  next
    case False
    then have "match_trailing_digits (c # cs) = match_trailing_digits cs" by auto
    then show ?thesis using Cons trailing_digits_Cons [OF False] by simp
  qed
qed

subsection \<open>The reduction computes the maximum\<close>

lemma max_step_own: "max_step m q = Max (set (m # own_numbers q))"
proof (cases "quotationNumber q")
  case None
  then show ?thesis by (simp add: max_step_def own_numbers_def)
next
  case (Some s)
  then show ?thesis
    by (cases "trailing_digits s = []")
       (simp_all add: max_step_def own_numbers_def match_trailing_digits_run max.commute)
qed

lemma foldl_max_step:
  "foldl max_step m qs = Max (set (m # sequence_numbers qs))"
proof (induction qs arbitrary: m)
  case Nil
  show ?case by (simp add: sequence_numbers_def)
next
  case (Cons q qs)
  have "foldl max_step m (q # qs) = Max (set (max_step m q # sequence_numbers qs))"
    using Cons by simp
  also have "\<dots> = Max (insert (Max (set (m # own_numbers q))) (set (sequence_numbers qs)))"
    by (simp add: max_step_own)
  also have "\<dots> = Max (set (m # own_numbers q) \<union> set (sequence_numbers qs))"
  proof (cases "sequence_numbers qs = []")
    case True
    then show ?thesis by simp
  next
    case False
    then show ?thesis
      by (subst Max_Un) (simp_all add: max.commute)
  qed
  also have "\<dots> = Max (set (m # sequence_numbers (q # qs)))"
    by (simp add: sequence_numbers_def Un_commute insert_commute Un_assoc)
  finally show ?case .
qed

lemma maxNum_Max: "maxNum qs = Max (set (0 # sequence_numbers qs))"
  by (simp add: maxNum_def foldl_max_step)

subsection \<open>Decimal digits and padding\<close>

lemma digit_char_props: "d < 10 \<Longrightarrow> is_digit (digit_char d) \<and> digit_val (digit_char d) = d"
proof -
  assume "d < 10"
  then have "d \<in> {0, 1, 2, 3, 4, 5, 6, 7, 8, 9}" by auto
  then show ?thesis
    by (auto simp: digit_char_def is_digit_def digit_val_def)
qed

lemma digits_val_snoc: "digits_val (ds @ [c]) = 10 * digits_val ds + digit_val c"
  by (simp add: digits_val_def)

lemma string_of_nat_digits:
  "list_all is_digit (string_of_nat n) \<and> digits_val (string_of_nat n) = n \<and> string_of_nat n \<noteq> []"
proof (induction n rule: string_of_nat.induct)
  case (1 n)
  show ?case
  proof (cases "n < 10")
    case True
    then have "string_of_nat n = [digit_char n]" by (subst string_of_nat.simps) simp
    with True show ?thesis
      using digit_char_props [of n] by (simp add: digits_val_def)
  next
    case False
    have "n mod 10 < 10" by simp
    moreover from False
    have "string_of_nat n = string_of_nat (n div 10) @ [digit_char (n mod 10)]"
      by (subst string_of_nat.simps) simp
    ultimately show ?thesis
      using False 1 digit_char_props [of "n mod 10"] by (simp add: digits_val_snoc)
  qed
qed

lemma digits_val_zeros: "digits_val (replicate k (CHR ''0'') @ ds) = digits_val ds"
proof -
  have "digit_val (CHR ''0'') = 0" by (simp add: digit_val_def)
  then have "foldl (\<lambda>n c. 10 * n + digit_val c) 0 (replicate k (CHR ''0'')) = 0"
    by (induction k) simp_all
  then show ?thesis by (simp add: digits_val_def)
qed

lemma padded_digits:
  "list_all is_digit (padStart k (CHR ''0'') (string_of_nat n))
   \<and> digits_val (padStart k (CHR ''0'') (string_of_nat n)) = n
   \<and> padStart k (CHR ''0'') (string_of_nat n) \<noteq> []
   \<and> k \<le> length (padStart k (CHR ''0'') (string_of_nat n))"
proof -
  have "is_digit (CHR ''0'')" by (simp add: is_digit_def)
  then have "list_all is_digit (replicate (k - length (string_of_nat n)) (CHR ''0''))"
    by (simp add: list_all_iff)
  then show ?thesis
    using string_of_nat_digits [of n] by (simp add: padStart_def digits_val_zeros)
qed

lemma trailing_digits_after:
  assumes "\<not> is_digit c" and "list_all is_digit ds"
  shows "trailing_digits (pre @ c # ds) = ds"
proof -
  have "takeWhile is_digit (rev ds @ c # rev pre) = rev ds"
    using assms by (simp add: takeWhile_tail list_all_iff)
  then show ?thesis by (simp add: trailing_digits_def)
qed

text \<open>
  The number of a new quotation reads back as the sequence number it was given, which
  is greater than every sequence number of the collection.
\<close>

lemma new_number_reads_back:
  "own_numbers (handleNewQuotation e qs) = [maxNum qs + 1]
   \<and> (\<forall>n \<in> set (sequence_numbers qs). n < maxNum qs + 1)"
proof -
  let ?p = "padStart 4 (CHR ''0'') (string_of_nat (maxNum qs + 1))"
  have "\<not> is_digit (CHR ''-'')" by (simp add: is_digit_def)
  then have "trailing_digits ((''QT-'' @ string_of_nat (year e)) @ CHR ''-'' # ?p) = ?p"
    using padded_digits [of 4 "maxNum qs + 1"] by (intro trailing_digits_after) simp_all
  then have "own_numbers (handleNewQuotation e qs) = [maxNum qs + 1]"
    using padded_digits [of 4 "maxNum qs + 1"]
    by (simp add: own_numbers_def handleNewQuotation_def getNewQuotation_def)
  moreover have "\<forall>n \<in> set (sequence_numbers qs). n < maxNum qs + 1"
    by (simp add: maxNum_Max less_Suc_eq_le)
  ultimately show ?thesis by simp
qed



section \<open>The editor keeps at least one item\<close>

lemma item_id_change_item [simp]: "item_id (change_item f v it) = item_id it"
  by (cases f) (simp_all add: change_item_def set_number_field_def Let_def)

lemma item_id_set_text_field [simp]: "item_id (set_text_field f v it) = item_id it"
  by (cases f) (simp_all add: set_text_field_def)

lemma ids_handleItemChange [simp]:
  "map item_id (items (handleItemChange i f v q)) = map item_id (items q)"
  by (simp add: handleItemChange_def comp_def if_distrib cong: if_cong)

lemma ids_handleTextareaChange [simp]:
  "map item_id (items (handleTextareaChange i f v q)) = map item_id (items q)"
  by (simp add: handleTextareaChange_def comp_def if_distrib cong: if_cong)

lemma items_handleItemChange_Nil [simp]:
  "items (handleItemChange i f v q) = [] \<longleftrightarrow> items q = []"
  by (simp add: handleItemChange_def)

lemma items_handleTextareaChange_Nil [simp]:
  "items (handleTextareaChange i f v q) = [] \<longleftrightarrow> items q = []"
  by (simp add: handleTextareaChange_def)

lemma items_handleInputChange [simp]: "items (handleInputChange n v q) = items q"
  by (cases n) (simp_all add: handleInputChange_def)

text \<open>With pairwise different ids, removing an id removes at most one item.\<close>

lemma filter_distinct_length:
  "distinct (map item_id its) \<Longrightarrow>
   length its \<le> Suc (length (filter (\<lambda>it. item_id it \<noteq> i) its))"
proof (induction its)
  case Nil
  show ?case by simp
next
  case (Cons a its)
  show ?case
  proof (cases "item_id a = i")
    case True
    have "\<forall>it \<in> set its. item_id it \<noteq> i"
    proof
      fix it assume "it \<in> set its"
      then have "item_id it \<in> item_id ` set its" by (rule imageI)
      with Cons.prems True show "item_id it \<noteq> i" by auto
    qed
    then have "filter (\<lambda>it. item_id it \<noteq> i) its = its" by (simp add: filter_id_conv)
    with True show ?thesis by simp
  next
    case False
    with Cons show ?thesis by simp
  qed
qed

lemma remove_keeps_one:
  assumes "ids_distinct q" and "items q \<noteq> []"
  shows "items (handleRemoveItem q i q) \<noteq> []"
proof (cases "length (items q) > 1")
  case True
  with filter_distinct_length [of "items q" i] assms(1)
  have "length (filter (\<lambda>it. item_id it \<noteq> i) (items q)) \<noteq> 0"
    unfolding ids_distinct_def by linarith
  then have "filter (\<lambda>it. item_id it \<noteq> i) (items q) \<noteq> []"
    by (simp del: filter_empty_conv)
  with True show ?thesis by (simp add: handleRemoveItem_def)
next
  case False
  with assms(2) show ?thesis by (simp add: handleRemoveItem_def)
qed

lemma editor_step_inv:
  assumes "editor_inv q" and "fresh_event q ev"
  shows "editor_inv (editor_step q ev)"
proof (cases ev)
  case (InputChange n v)
  with assms show ?thesis by (simp add: editor_inv_def ids_distinct_def)
next
  case (ItemChange i f v)
  with assms show ?thesis by (simp add: editor_inv_def ids_distinct_def)
next
  case (TextareaChange i f v)
  with assms show ?thesis by (simp add: editor_inv_def ids_distinct_def)
next
  case (AddItem u)
  with assms show ?thesis
    by (simp add: editor_inv_def ids_distinct_def handleAddItem_def fresh_event_def
        getDefaultItem_def)
next
  case (RemoveItem i)
  have "ids_distinct (handleRemoveItem q i q)"
    using assms(1)
    by (simp add: editor_inv_def ids_distinct_def handleRemoveItem_def distinct_map_filter)
  with RemoveItem assms remove_keeps_one [of q i] show ?thesis
    by (simp add: editor_inv_def)
qed

lemma editor_run_inv:
  "editor_inv q \<Longrightarrow> fresh_events q evs \<Longrightarrow> editor_inv (editor_run q evs)"
  unfolding editor_run_def
proof (induction evs arbitrary: q)
  case Nil
  then show ?case by simp
next
  case (Cons ev evs)
  then show ?case using editor_step_inv [of q ev] by simp
qed

text \<open>
  C3. For every quotation whose items carry pairwise different ids, the removal being
  handled on the state that was rendered: removing an item
  from a quotation with exactly one item changes nothing; from a quotation with more
  than one item it removes the item with that id; in both cases at least one item
  remains. So a quotation with at least one item keeps at least one item under every
  sequence of editor operations (header edits, item edits, text edits, additions with
  fresh ids, removals).
\<close>

theorem remove_item_keeps_last:
  assumes "ids_distinct q"
  shows "(length (items q) = 1 \<longrightarrow> handleRemoveItem q i q = q)
       \<and> (length (items q) > 1 \<longrightarrow>
            items (handleRemoveItem q i q) = filter (\<lambda>it. item_id it \<noteq> i) (items q))
       \<and> (items q \<noteq> [] \<longrightarrow> items (handleRemoveItem q i q) \<noteq> [])
       \<and> (\<forall>evs. items q \<noteq> [] \<and> fresh_events q evs \<longrightarrow> items (editor_run q evs) \<noteq> [])"
proof -
  have "\<forall>evs. items q \<noteq> [] \<and> fresh_events q evs \<longrightarrow> items (editor_run q evs) \<noteq> []"
    using assms editor_run_inv [of q] by (auto simp: editor_inv_def)
  moreover have "items q \<noteq> [] \<longrightarrow> items (handleRemoveItem q i q) \<noteq> []"
    using assms remove_keeps_one [of q i] by simp
  ultimately show ?thesis by (simp add: handleRemoveItem_def)
qed

text \<open>
  C3 at the new quotation (one item: the removal changes nothing, also after an
  addition and two removals) and at a quotation with two items (one is removed).
\<close>

theorem remove_item_keeps_last_witness:
  "ids_distinct example_quotation
   \<and> length (items example_quotation) = 1
   \<and> handleRemoveItem example_quotation ''i-1'' example_quotation = example_quotation
   \<and> items (editor_run example_quotation
        [RemoveItem ''i-1'', AddItem ''i-2'', RemoveItem ''i-1'', RemoveItem ''i-2'']) \<noteq> []
   \<and> ids_distinct two_item_quotation
   \<and> map item_id (items (handleRemoveItem two_item_quotation ''i-1'' two_item_quotation))
       = [''i-2'']"
proof -
  have d1: "ids_distinct example_quotation" by code_simp
  have l1: "length (items example_quotation) = 1" by code_simp
  have n1: "items example_quotation \<noteq> []" by code_simp
  have f1: "fresh_events example_quotation
      [RemoveItem ''i-1'', AddItem ''i-2'', RemoveItem ''i-1'', RemoveItem ''i-2'']"
    by code_simp
  have d2: "ids_distinct two_item_quotation" by code_simp
  have l2: "length (items two_item_quotation) > 1" by code_simp
  have r2: "map item_id (filter (\<lambda>it. item_id it \<noteq> ''i-1'') (items two_item_quotation))
      = [''i-2'']"
    by code_simp
  from remove_item_keeps_last [OF d1, of "''i-1''"] l1
  have a: "handleRemoveItem example_quotation ''i-1'' example_quotation = example_quotation"
    by blast
  from remove_item_keeps_last [OF d1, of "''i-1''"] n1 f1
  have b: "items (editor_run example_quotation
      [RemoveItem ''i-1'', AddItem ''i-2'', RemoveItem ''i-1'', RemoveItem ''i-2'']) \<noteq> []"
    by blast
  from remove_item_keeps_last [OF d2, of "''i-1''"] l2
  have "items (handleRemoveItem two_item_quotation ''i-1'' two_item_quotation)
      = filter (\<lambda>it. item_id it \<noteq> ''i-1'') (items two_item_quotation)"
    by blast
  with r2 have c: "map item_id (items (handleRemoveItem two_item_quotation ''i-1''
      two_item_quotation)) = [''i-2'']"
    by simp
  from d1 l1 a b d2 c show ?thesis by blast
qed

section \<open>Editing an item\<close>



section \<open>The default line item\<close>

text \<open>
  C5 (as amended). \<open>getDefaultItem\<close> returns a line item whose id is the value of
  \<open>crypto.randomUUID()\<close>, with quantity 1, unit price 0 and amount 0, and with empty
  requirement and remark.
\<close>

theorem default_item_fields:
  "item_id (getDefaultItem uuid) = uuid
   \<and> qty (getDefaultItem uuid) = Num 1
   \<and> unitPrice (getDefaultItem uuid) = Num 0
   \<and> amount (getDefaultItem uuid) = Num 0
   \<and> requirement (getDefaultItem uuid) = []
   \<and> remark (getDefaultItem uuid) = []"
  by (simp add: getDefaultItem_def)

text \<open>C5 as stated fails: the quantity of the default item is 1, not 0.\<close>

theorem default_item_qty_counterexample:
  "qty (getDefaultItem ''i-1'') = Num 1 \<and> qty (getDefaultItem ''i-1'') \<noteq> Num 0"
  by (simp add: getDefaultItem_def)

section \<open>The dashboard's filter and statistics\<close>


















section \<open>The order of the filtered list\<close>





text \<open>
  In the application the dashboard gets its quotations from the snapshot listener,
  which lists a document without a stored \<open>createdAt\<close> with the current time.
\<close>

lemma fetched_createdAt:
  "map createdAt (fetchedQuotations nowd docs)
     = map (\<lambda>d. Some (case createdAt d of Some t \<Rightarrow> t | None \<Rightarrow> nowd)) docs"
  by (simp add: fetchedQuotations_def)




section \<open>Saving\<close>

lemma calculations_depend_on:
  "items r = items q \<Longrightarrow> taxRate r = taxRate q \<Longrightarrow> discount r = discount q \<Longrightarrow>
   calculated_totals r = calculated_totals q"
  by (simp add: calculated_totals_def)

lemma merge_doc_fields:
  "items (merge_doc old new) = items new \<and> taxRate (merge_doc old new) = taxRate new
   \<and> discount (merge_doc old new) = discount new \<and> subtotal (merge_doc old new) = subtotal new
   \<and> taxAmount (merge_doc old new) = taxAmount new
   \<and> grandTotal (merge_doc old new) = grandTotal new
   \<and> quot_id (merge_doc old new) = quot_id new"
  by (cases old) (simp_all add: merge_doc_def)

text \<open>
  What the handler computes after the hook: were the call of the hook to return, as it
  does during a render, a save that reaches the collection would store a record with
  the items, tax rate and discount of the quotation and with totals computed afresh
  from them.
\<close>

lemma save_after_hook_stores_fresh_totals:
  "\<exists>st' r. handleSaveQuotation Rendering True True e q st = Inr st'
     \<and> collection st' (quot_id q) = Some r
     \<and> items r = items q \<and> taxRate r = taxRate q \<and> discount r = discount q
     \<and> subtotal r = subtotal (calculated_totals r)
     \<and> taxAmount r = taxAmount (calculated_totals r)
     \<and> grandTotal r = grandTotal (calculated_totals r)"
proof -
  let ?final = "q\<lparr>subtotal := subtotal (calculated_totals q),
                  taxAmount := taxAmount (calculated_totals q),
                  grandTotal := grandTotal (calculated_totals q),
                  dateIssued := today e, updatedAt := Some (now e)\<rparr>"
  let ?r = "merge_doc (collection st (quot_id q)) ?final"
  let ?st = "st\<lparr>collection := (collection st)(quot_id q \<mapsto> ?r),
                currentQuotation := Some ?final\<rparr>"
  have c: "calculated_totals ?r = calculated_totals q"
    by (rule calculations_depend_on) (simp_all add: merge_doc_fields)
  have "handleSaveQuotation Rendering True True e q st = Inr ?st"
    by (simp add: handleSaveQuotation_def useQuotationCalculations_def useMemo_def Let_def)
  moreover have "collection ?st (quot_id q) = Some ?r" by simp
  moreover have "items ?r = items q \<and> taxRate ?r = taxRate q \<and> discount ?r = discount q
      \<and> subtotal ?r = subtotal (calculated_totals ?r)
      \<and> taxAmount ?r = taxAmount (calculated_totals ?r)
      \<and> grandTotal ?r = grandTotal (calculated_totals ?r)"
    unfolding c by (simp add: merge_doc_fields)
  ultimately show ?thesis by blast
qed

text \<open>
  C8 says that every save computes subtotal, tax amount and grand total afresh just
  before the write and persists them, so that reading the record back gives fresh
  totals. The code sets out to do so (its comment: recalculate totals before saving),
  but \<open>handleSaveQuotation\<close> calls the hook \<open>useQuotationCalculations\<close> from a
  callback that runs in an event handler, not in a render: the call throws, the promise
  of the handler is rejected before \<open>setDoc\<close>, and nothing is written. Whenever the
  database and the user are ready, the Save button, and every other call of the handler
  from an event, ends with the error and leaves the collection as it was; when they are
  not ready the handler returns without writing.
\<close>

theorem save_is_rejected_before_the_write:
  "save_draft True write_ok e q st = Inl InvalidHookCall
   \<and> handleSaveQuotation Handling True write_ok e q st = Inl InvalidHookCall
   \<and> save_draft False write_ok e q st = Inr st"
  by (simp add: save_draft_def handleSaveQuotation_def useQuotationCalculations_def
      useMemo_def)

text \<open>
  For instance, saving the quotation with half a unit at 0.25 and 50 percent tax into
  the empty collection.
\<close>

lemma save_draft_example:
  "save_draft True True example_env fractional_quotation empty_state = Inl InvalidHookCall"
  by (simp add: save_draft_def handleSaveQuotation_def useQuotationCalculations_def
      useMemo_def)

section \<open>The REST server\<close>

text \<open>
  C9. For every id and every state of the file, \<open>DELETE\<close> answers 200 with
  \<open>{success: true}\<close>, whether or not a quotation has the id; the collection
  afterwards is the one before without the quotations of that id, in the same order,
  so it is unchanged when none has the id; deleting the same id again changes nothing
  more.
\<close>

theorem delete_is_idempotent:
  "snd (delete_quotation i file) = Response 200 (BObject [''success'' \<mapsto> JBool True])
   \<and> readDB (fst (delete_quotation i file))
       = filter (\<lambda>item. item ''id'' \<noteq> Some (JStr i)) (readDB file)
   \<and> ((\<forall>item \<in> set (readDB file). item ''id'' \<noteq> Some (JStr i))
        \<longrightarrow> readDB (fst (delete_quotation i file)) = readDB file)
   \<and> (\<forall>item \<in> set (readDB (fst (delete_quotation i file))). item ''id'' \<noteq> Some (JStr i))
   \<and> delete_quotation i (fst (delete_quotation i file)) = delete_quotation i file"
  by (simp add: delete_quotation_def readDB_def writeDB_def Let_def filter_id_conv)

text \<open>C9 at a file with the quotations \<open>a\<close> and \<open>b\<close>: deleting \<open>a\<close> and deleting the absent \<open>c\<close>.\<close>

theorem delete_is_idempotent_witness:
  "map (\<lambda>item. item ''id'') (readDB example_db) = [Some (JStr ''a''), Some (JStr ''b'')]
   \<and> map (\<lambda>item. item ''id'') (readDB (fst (delete_quotation ''a'' example_db)))
       = [Some (JStr ''b'')]
   \<and> list_all (\<lambda>item. item ''id'' \<noteq> Some (JStr ''c'')) (readDB example_db)
   \<and> readDB (fst (delete_quotation ''c'' example_db)) = readDB example_db
   \<and> snd (delete_quotation ''c'' example_db)
       = Response 200 (BObject [''success'' \<mapsto> JBool True])"
proof -
  have a: "map (\<lambda>item. item ''id'') (readDB example_db) = [Some (JStr ''a''), Some (JStr ''b'')]"
    by (simp add: example_db_def stored_a_def stored_b_def readDB_def)
  have b: "map (\<lambda>item. item ''id'')
      (filter (\<lambda>item. item ''id'' \<noteq> Some (JStr ''a'')) (readDB example_db))
       = [Some (JStr ''b'')]"
    by (simp add: example_db_def stored_a_def stored_b_def readDB_def)
  have c: "\<forall>item \<in> set (readDB example_db). item ''id'' \<noteq> Some (JStr ''c'')"
    by (simp add: example_db_def stored_a_def stored_b_def readDB_def)
  have "readDB (fst (delete_quotation ''a'' example_db))
      = filter (\<lambda>item. item ''id'' \<noteq> Some (JStr ''a'')) (readDB example_db)"
    using delete_is_idempotent [of "''a''" example_db] by (rule conjunct2 [THEN conjunct1])
  with b have d: "map (\<lambda>item. item ''id'') (readDB (fst (delete_quotation ''a'' example_db)))
       = [Some (JStr ''b'')]"
    by (simp only:)
  have e: "readDB (fst (delete_quotation ''c'' example_db)) = readDB example_db"
    using delete_is_idempotent [of "''c''" example_db, THEN conjunct2, THEN conjunct2,
        THEN conjunct1] c
    by (rule mp)
  have f: "snd (delete_quotation ''c'' example_db)
       = Response 200 (BObject [''success'' \<mapsto> JBool True])"
    using delete_is_idempotent [of "''c''" example_db] by (rule conjunct1)
  from c have c': "list_all (\<lambda>item. item ''id'' \<noteq> Some (JStr ''c'')) (readDB example_db)"
    by (simp only: list_all_iff)
  show ?thesis by (intro conjI a d c' e f)
qed

text \<open>
  C10. For every \<open>POST\<close>, the body is merged after the generated fields: every
  field of the body, \<open>id\<close>, \<open>created_at\<close> and \<open>updated_at\<close> among them, is the
  field of the created record; the record carries the generated id and the server's
  time stamps only where the body has no such field.
\<close>

theorem post_body_overrides_generated_fields:
  "(\<forall>k v. payload k = Some v \<longrightarrow> new_record uuid t1 t2 payload k = Some v)
   \<and> (payload ''id'' = None \<longrightarrow> new_record uuid t1 t2 payload ''id'' = Some (JStr uuid))
   \<and> (payload ''created_at'' = None \<longrightarrow>
        new_record uuid t1 t2 payload ''created_at'' = Some (JStr t1))
   \<and> (payload ''updated_at'' = None \<longrightarrow>
        new_record uuid t1 t2 payload ''updated_at'' = Some (JStr t2))
   \<and> post_quotation uuid t1 t2 payload file
       = (Some (readDB file @ [new_record uuid t1 t2 payload]),
          Response 201 (BObject (new_record uuid t1 t2 payload)))"
  by (simp add: new_record_def post_quotation_def writeDB_def Let_def map_add_def)

text \<open>C10 at a body with its own \<open>id\<close> and no \<open>created_at\<close>.\<close>

theorem post_body_overrides_generated_fields_witness:
  "[''id'' \<mapsto> JStr ''mine'', ''clientName'' \<mapsto> JStr ''A''] ''id'' = Some (JStr ''mine'')
   \<and> [''id'' \<mapsto> JStr ''mine'', ''clientName'' \<mapsto> JStr ''A''] ''created_at'' = None
   \<and> new_record ''generated'' ''t1'' ''t2''
        [''id'' \<mapsto> JStr ''mine'', ''clientName'' \<mapsto> JStr ''A''] ''id'' = Some (JStr ''mine'')
   \<and> new_record ''generated'' ''t1'' ''t2''
        [''id'' \<mapsto> JStr ''mine'', ''clientName'' \<mapsto> JStr ''A''] ''created_at''
       = Some (JStr ''t1'')"
proof -
  have a: "[''id'' \<mapsto> JStr ''mine'', ''clientName'' \<mapsto> JStr ''A''] ''id'' = Some (JStr ''mine'')"
    by simp
  have b: "[''id'' \<mapsto> JStr ''mine'', ''clientName'' \<mapsto> JStr ''A''] ''created_at'' = None"
    by simp
  from post_body_overrides_generated_fields
    [of "[''id'' \<mapsto> JStr ''mine'', ''clientName'' \<mapsto> JStr ''A'']" "''generated''" "''t1''" "''t2''"]
    a b
  show ?thesis by blast
qed

end
